theory Spec2Isabelle
  imports Main
begin

section \<open>The build script \<^verbatim>\<open>setup.py\<close> of numcodecs\<close>

text \<open>
  The script computes the common compiler flags from the host, assembles one
  \<^verbatim>\<open>Extension\<close> descriptor per native component, and installs two command classes:
  \<^verbatim>\<open>ve_build_ext\<close>, which precompiles the zstd assembly files and wraps the standard
  build step, and \<^verbatim>\<open>Sclean\<close>, which removes the derived object files.

  Everything the script reads from outside (CPU flags, environment, platform names, the
  file system, subprocesses, the C toolchain) is an explicit argument: a \<open>host\<close> record
  and a \<open>filesystem\<close>. Exceptions are values of type \<open>exc\<close>; everything the script prints
  or asks a library to do is recorded, in order, as a list of \<open>event\<close>s.
\<close>

subsection \<open>Exceptions\<close>

text \<open>
  The exception classes the script names, and the ones the library calls it makes raise.
  \<^verbatim>\<open>IOError\<close> is Python's \<^verbatim>\<open>OSError\<close>; \<^verbatim>\<open>FileNotFoundError\<close> and \<^verbatim>\<open>IsADirectoryError\<close>
  derive from it, \<^verbatim>\<open>CompileError\<close> and \<^verbatim>\<open>LinkError\<close> derive from \<^verbatim>\<open>CCompilerError\<close>.
  The cause attached by \<^verbatim>\<open>raise BuildFailed() from e\<close> only decorates the traceback and is
  not kept; the logged exception is.
\<close>

datatype exc =
    CCompilerError | CompileError | LinkError
  | ExecError | PlatformError
  | IOError | FileNotFoundError | IsADirectoryError
  | ValueError | CalledProcessError | ImportError
  | BuildFailed

fun issubclass :: "exc \<Rightarrow> exc \<Rightarrow> bool" where
  "issubclass CompileError CCompilerError = True"
| "issubclass LinkError CCompilerError = True"
| "issubclass FileNotFoundError IOError = True"
| "issubclass IsADirectoryError IOError = True"
| "issubclass a b = (a = b)"

text \<open>\<^verbatim>\<open>except classes as e\<close>: the clause handles \<open>e\<close> when it is an instance of one of them.\<close>

definition handles :: "exc list \<Rightarrow> exc \<Rightarrow> bool" where
  "handles classes e = list_ex (issubclass e) classes"

subsection \<open>Events and results\<close>

datatype event =
    Log_info string              \<comment> \<open>\<^verbatim>\<open>info(msg)\<close>: a line on stdout\<close>
  | Log_error exc                \<comment> \<open>\<^verbatim>\<open>error(e)\<close>: a line on stderr\<close>
  | Exec "string list"           \<comment> \<open>\<^verbatim>\<open>subprocess.check_output(argv)\<close>\<close>
  | New_compiler                 \<comment> \<open>\<^verbatim>\<open>ccompiler.new_compiler()\<close> and \<^verbatim>\<open>customize_compiler\<close>\<close>
  | Compile "string list"        \<comment> \<open>\<^verbatim>\<open>compiler.compile(S_files)\<close>\<close>
  | Build_ext_run                \<comment> \<open>the wrapped \<^verbatim>\<open>build_ext.run(self)\<close> begins\<close>
  | Build string                 \<comment> \<open>the wrapped \<^verbatim>\<open>build_ext.build_extension(self, ext)\<close>\<close>
  | Remove string                \<comment> \<open>\<^verbatim>\<open>os.remove(f)\<close>\<close>
  | Clean_run                    \<comment> \<open>the wrapped \<^verbatim>\<open>clean.run(self)\<close>\<close>

text \<open>
  A computation yields an exception or a value, and the events it caused up to there.
\<close>

type_synonym 'a res = "(exc + 'a) \<times> event list"

definition ret :: "'a \<Rightarrow> 'a res" where
  "ret x = (Inr x, [])"

definition raise :: "exc \<Rightarrow> 'a res" where
  "raise e = (Inl e, [])"

definition emit :: "event \<Rightarrow> unit res" where
  "emit ev = (Inr (), [ev])"

text \<open>Sequencing: an exception of the first part skips the second.\<close>

definition bind :: "'a res \<Rightarrow> ('a \<Rightarrow> 'b res) \<Rightarrow> 'b res" where
  "bind m f =
     (case m of
        (Inl e, t) \<Rightarrow> (Inl e, t)
      | (Inr x, t) \<Rightarrow> (case f x of (r, t') \<Rightarrow> (r, t @ t')))"

text \<open>\<^verbatim>\<open>try: body  except classes as e: handler(e)\<close>.\<close>

definition try_except :: "'a res \<Rightarrow> exc list \<Rightarrow> (exc \<Rightarrow> 'a res) \<Rightarrow> 'a res" where
  "try_except body classes handler =
     (case body of
        (Inl e, t) \<Rightarrow>
          (if handles classes e then (case handler e of (r, t') \<Rightarrow> (r, t @ t'))
           else (Inl e, t))
      | (Inr x, t) \<Rightarrow> (Inr x, t))"

subsection \<open>The host and the file system\<close>

record extension =
  name :: string
  sources :: "string list"
  include_dirs :: "string list"
  define_macros :: "(string \<times> string) list"
  extra_compile_args :: "string list"
  extra_link_args :: "string list"
  extra_objects :: "string list"

text \<open>
  \<^verbatim>\<open>Extension(name, sources=...)\<close>: every list the call does not pass is empty.
\<close>

definition Extension :: "string \<Rightarrow> string list \<Rightarrow> extension" where
  "Extension n srcs =
     \<lparr>name = n, sources = srcs, include_dirs = [], define_macros = [],
      extra_compile_args = [], extra_link_args = [], extra_objects = []\<rparr>"

record host =
  cpu_info_flags :: "string list option"   \<comment> \<open>\<^verbatim>\<open>cpuinfo.get_cpu_info()\<close> at key \<^verbatim>\<open>'flags'\<close>\<close>
  environ :: "string \<rightharpoonup> string"          \<comment> \<open>\<^verbatim>\<open>os.environ\<close>\<close>
  os_name :: string                         \<comment> \<open>\<^verbatim>\<open>os.name\<close>\<close>
  sys_platform :: string                    \<comment> \<open>\<^verbatim>\<open>sys.platform\<close>\<close>
  machine :: string                         \<comment> \<open>\<^verbatim>\<open>cpuinfo.platform.machine()\<close>\<close>
  pypy_translation_info :: bool             \<comment> \<open>\<^verbatim>\<open>hasattr(sys, 'pypy_translation_info')\<close>\<close>
  check_output :: "string list \<Rightarrow> exc + string"
    \<comment> \<open>\<^verbatim>\<open>os.fsdecode(subprocess.check_output(argv))\<close>: the output, or the exception raised\<close>
  shlex_split :: "string \<Rightarrow> exc + string list"   \<comment> \<open>\<^verbatim>\<open>shlex.split\<close>\<close>
  numpy_get_include :: "exc + string"       \<comment> \<open>\<^verbatim>\<open>import numpy; numpy.get_include()\<close>\<close>
  new_compiler :: "exc option"
    \<comment> \<open>what \<^verbatim>\<open>new_compiler()\<close>, \<^verbatim>\<open>customize_compiler\<close> raise, if anything\<close>
  compile :: "string list \<Rightarrow> exc option"   \<comment> \<open>what \<^verbatim>\<open>compiler.compile(files)\<close> raises\<close>
  compile_link :: "extension \<Rightarrow> exc option"
    \<comment> \<open>what the wrapped \<^verbatim>\<open>build_ext.build_extension(self, ext)\<close> raises\<close>

datatype kind = File | Dir

text \<open>
  The file system below the working directory: the existing paths, relative, with
  \<^verbatim>\<open>/\<close> as separator, and what each one is. A path occurs once.
\<close>

type_synonym filesystem = "(string \<times> kind) list"


subsection \<open>\<^verbatim>\<open>glob\<close>, \<^verbatim>\<open>os.path.isdir\<close>, \<^verbatim>\<open>os.remove\<close>\<close>

text \<open>
  \<^verbatim>\<open>fnmatch\<close> on one path component, for the patterns the script uses: \<^verbatim>\<open>*\<close> matches
  any run of characters, every other character matches itself (the script's patterns
  hold neither \<^verbatim>\<open>?\<close> nor brackets). Matching is case-sensitive, as on POSIX.
\<close>

fun fnmatch :: "string \<Rightarrow> string \<Rightarrow> bool" where
  "fnmatch [] [] = True"
| "fnmatch (c # cs) [] = False"
| "fnmatch [] (p # ps) = (p = CHR ''*'' \<and> fnmatch [] ps)"
| "fnmatch (c # cs) (p # ps) =
     (if p = CHR ''*'' then fnmatch (c # cs) ps \<or> fnmatch cs (p # ps)
      else p = c \<and> fnmatch cs ps)"

text \<open>\<^verbatim>\<open>glob\<close> skips names starting with a dot unless the pattern component does.\<close>

definition ishidden :: "string \<Rightarrow> bool" where
  "ishidden s = (case s of [] \<Rightarrow> False | c # _ \<Rightarrow> c = CHR ''.'')"

definition component_match :: "string \<Rightarrow> string \<Rightarrow> bool" where
  "component_match nm pat = ((ishidden pat \<or> \<not> ishidden nm) \<and> fnmatch nm pat)"

fun components :: "string \<Rightarrow> string list" where
  "components [] = [[]]"
| "components (c # cs) =
     (if c = CHR ''/'' then [] # components cs
      else (case components cs of [] \<Rightarrow> [[c]] | s # ss \<Rightarrow> (c # s) # ss))"

definition glob_match :: "string \<Rightarrow> string \<Rightarrow> bool" where
  "glob_match path pat = list_all2 component_match (components path) (components pat)"

text \<open>\<^verbatim>\<open>glob(pattern)\<close>: the existing paths that match, component by component.\<close>

definition glob :: "filesystem \<Rightarrow> string \<Rightarrow> string list" where
  "glob fs pat = map fst (filter (\<lambda>entry. glob_match (fst entry) pat) fs)"

definition isdir :: "filesystem \<Rightarrow> string \<Rightarrow> bool" where
  "isdir fs d = (map_of fs d = Some Dir)"


subsection \<open>Common compile arguments\<close>

definition flags :: "host \<Rightarrow> string list" where
  "flags h = (case cpu_info_flags h of None \<Rightarrow> [] | Some fl \<Rightarrow> fl)"

definition have_sse2 :: "host \<Rightarrow> bool" where
  "have_sse2 h = (''sse2'' \<in> set (flags h))"

definition have_avx2 :: "host \<Rightarrow> bool" where
  "have_avx2 h = (''avx2'' \<in> set (flags h))"

definition disable_sse2 :: "host \<Rightarrow> bool" where
  "disable_sse2 h = (environ h ''DISABLE_NUMCODECS_SSE2'' \<noteq> None)"

definition disable_avx2 :: "host \<Rightarrow> bool" where
  "disable_avx2 h = (environ h ''DISABLE_NUMCODECS_AVX2'' \<noteq> None)"

definition have_cflags :: "host \<Rightarrow> bool" where
  "have_cflags h = (environ h ''CFLAGS'' \<noteq> None)"

definition base_compile_args :: "host \<Rightarrow> string list" where
  "base_compile_args h =
     (if have_cflags h then []
      else if os_name h = ''posix'' then
        (if disable_sse2 h then [''-mno-sse2'']
         else if have_sse2 h then [''-msse2''] else [])
        @ (if disable_avx2 h then [''-mno-avx2'']
           else if have_avx2 h then [''-mavx2''] else [])
      else [])
     @ (if sys_platform h = ''darwin'' then [''-stdlib=libc++''] else [])"

definition info :: "string \<Rightarrow> unit res" where
  "info msg = emit (Log_info msg)"

definition error :: "exc \<Rightarrow> unit res" where
  "error e = emit (Log_error e)"

subsection \<open>The package registry\<close>

record package =
  cflags :: "string list"
  libs :: "string list"

definition subprocess_check_output :: "host \<Rightarrow> string list \<Rightarrow> string res" where
  "subprocess_check_output h argv =
     bind (emit (Exec argv))
       (\<lambda>_. case check_output h argv of Inl e \<Rightarrow> raise e | Inr out \<Rightarrow> ret out)"

definition shlex_split_res :: "host \<Rightarrow> string \<Rightarrow> string list res" where
  "shlex_split_res h s = (case shlex_split h s of Inl e \<Rightarrow> raise e | Inr ws \<Rightarrow> ret ws)"

definition pkgconfig :: "host \<Rightarrow> string \<Rightarrow> package res" where
  "pkgconfig h nm =
     bind (subprocess_check_output h [''pkg-config'', ''--cflags'', nm]) (\<lambda>cflags_out.
     bind (subprocess_check_output h [''pkg-config'', ''--libs'', nm]) (\<lambda>libs_out.
     bind (shlex_split_res h cflags_out) (\<lambda>cf.
     bind (shlex_split_res h libs_out) (\<lambda>lb.
     ret \<lparr>cflags = cf, libs = lb\<rparr>))))"

subsection \<open>The component descriptors\<close>

definition blosc_extension :: "host \<Rightarrow> extension list res" where
  "blosc_extension h =
     bind (info ''setting up Blosc extension'') (\<lambda>_.
     bind (pkgconfig h ''blosc'') (\<lambda>blosc.
     ret [(Extension ''numcodecs.blosc'' [''numcodecs/blosc.pyx''])
            \<lparr>define_macros := [],
             extra_compile_args := base_compile_args h @ cflags blosc,
             extra_link_args := libs blosc\<rparr>]))"

definition zstd_extension :: "host \<Rightarrow> filesystem \<Rightarrow> extension list res" where
  "zstd_extension h fs =
     bind (info ''setting up Zstandard extension'') (\<lambda>_.
     let zstd_sources =
           glob fs ''c-blosc/internal-complibs/zstd*/common/*.c''
           @ glob fs ''c-blosc/internal-complibs/zstd*/compress/*.c''
           @ glob fs ''c-blosc/internal-complibs/zstd*/decompress/*.c''
           @ glob fs ''c-blosc/internal-complibs/zstd*/dictBuilder/*.c'';
         incl =
           filter (isdir fs) (glob fs ''c-blosc/internal-complibs/zstd*'')
           @ filter (isdir fs) (glob fs ''c-blosc/internal-complibs/zstd*/*'');
         objs =
           (if machine h = ''x86_64''
            then map (\<lambda>S. butlast S @ ''o'')
                   (glob fs ''c-blosc/internal-complibs/zstd*/decompress/*amd64.S'')
            else [])
     in ret [(Extension ''numcodecs.zstd'' ([''numcodecs/zstd.pyx''] @ zstd_sources))
               \<lparr>include_dirs := incl,
                define_macros := [],
                extra_compile_args := base_compile_args h,
                extra_objects := objs\<rparr>])"

definition lz4_extension :: "host \<Rightarrow> filesystem \<Rightarrow> extension list res" where
  "lz4_extension h fs =
     bind (info ''setting up LZ4 extension'') (\<lambda>_.
     let lz4_sources = glob fs ''c-blosc/internal-complibs/lz4*/*.c'';
         incl = filter (isdir fs) (glob fs ''c-blosc/internal-complibs/lz4*'') @ [''numcodecs'']
     in ret [(Extension ''numcodecs.lz4'' ([''numcodecs/lz4.pyx''] @ lz4_sources))
               \<lparr>include_dirs := incl,
                define_macros := [],
                extra_compile_args := base_compile_args h\<rparr>])"

definition vlen_extension :: "host \<Rightarrow> extension list res" where
  "vlen_extension h =
     bind (info ''setting up vlen extension'') (\<lambda>_.
     case numpy_get_include h of
       Inl e \<Rightarrow> raise e
     | Inr numpy_include \<Rightarrow>
         ret [(Extension ''numcodecs.vlen'' [''numcodecs/vlen.pyx''])
                \<lparr>include_dirs := [''numcodecs'', numpy_include],
                 define_macros := [],
                 extra_compile_args := base_compile_args h\<rparr>])"

definition fletcher_extension :: "host \<Rightarrow> extension list res" where
  "fletcher_extension h =
     bind (info ''setting up fletcher32 extension'') (\<lambda>_.
     ret [(Extension ''numcodecs.fletcher32'' [''numcodecs/fletcher32.pyx''])
            \<lparr>include_dirs := [''numcodecs''],
             define_macros := [],
             extra_compile_args := base_compile_args h\<rparr>])"

definition jenkins_extension :: "host \<Rightarrow> extension list res" where
  "jenkins_extension h =
     bind (info ''setting up jenkins extension'') (\<lambda>_.
     ret [(Extension ''numcodecs.jenkins'' [''numcodecs/jenkins.pyx''])
            \<lparr>include_dirs := [''numcodecs''],
             define_macros := [] @ [(''CYTHON_TRACE'', ''1'')],
             extra_compile_args := base_compile_args h\<rparr>])"

definition compat_extension :: "host \<Rightarrow> extension list res" where
  "compat_extension h =
     bind (info ''setting up compat extension'') (\<lambda>_.
     ret [(Extension ''numcodecs.compat_ext'' [''numcodecs/compat_ext.pyx''])
            \<lparr>extra_compile_args := base_compile_args h\<rparr>])"

definition shuffle_extension :: "host \<Rightarrow> extension list res" where
  "shuffle_extension h =
     bind (info ''setting up shuffle extension'') (\<lambda>_.
     ret [(Extension ''numcodecs._shuffle'' [''numcodecs/_shuffle.pyx''])
            \<lparr>extra_compile_args := base_compile_args h\<rparr>])"

subsection \<open>The build command\<close>

definition ext_errors :: "host \<Rightarrow> exc list" where
  "ext_errors h =
     (if sys_platform h = ''win32''
      then [CCompilerError, ExecError, PlatformError, IOError, ValueError]
      else [CCompilerError, ExecError, PlatformError])"

text \<open>
  The two library steps that \<^verbatim>\<open>ve_build_ext\<close> wraps. \<^verbatim>\<open>build_ext.build_extension\<close>
  compiles and links one extension, and raises what the toolchain makes it raise.
  \<^verbatim>\<open>build_ext.run\<close> calls \<^verbatim>\<open>self.build_extension\<close>, the method of the subclass, on every
  extension in the order of the list; an exception raised by a call ends the step.
\<close>

definition build_ext_build_extension :: "host \<Rightarrow> extension \<Rightarrow> unit res" where
  "build_ext_build_extension h ext =
     bind (emit (Build (name ext)))
       (\<lambda>_. case compile_link h ext of None \<Rightarrow> ret () | Some e \<Rightarrow> raise e)"

definition ve_build_ext_build_extension :: "host \<Rightarrow> extension \<Rightarrow> unit res" where
  "ve_build_ext_build_extension h ext =
     try_except (build_ext_build_extension h ext) (ext_errors h)
       (\<lambda>e. bind (error e) (\<lambda>_. raise BuildFailed))"

fun build_extensions :: "host \<Rightarrow> extension list \<Rightarrow> unit res" where
  "build_extensions h [] = ret ()"
| "build_extensions h (ext # exts) =
     bind (ve_build_ext_build_extension h ext) (\<lambda>_. build_extensions h exts)"

definition build_ext_run :: "host \<Rightarrow> extension list \<Rightarrow> unit res" where
  "build_ext_run h exts = bind (emit Build_ext_run) (\<lambda>_. build_extensions h exts)"

definition compile_S_files :: "host \<Rightarrow> string list \<Rightarrow> unit res" where
  "compile_S_files h S_files =
     bind (emit New_compiler) (\<lambda>_.
     case new_compiler h of
       Some e \<Rightarrow> raise e
     | None \<Rightarrow>
         bind (emit (Compile S_files))
           (\<lambda>_. case compile h S_files of None \<Rightarrow> ret () | Some e \<Rightarrow> raise e))"

text \<open>\<^verbatim>\<open>ve_build_ext.run\<close>, on the extensions of the distribution.\<close>

definition ve_build_ext_run :: "host \<Rightarrow> filesystem \<Rightarrow> extension list \<Rightarrow> unit res" where
  "ve_build_ext_run h fs exts =
     try_except
       (bind
          (if machine h = ''x86_64''
           then compile_S_files h
                  (glob fs ''c-blosc/internal-complibs/zstd*/decompress/*amd64.S'')
           else ret ())
          (\<lambda>_. build_ext_run h exts))
       [PlatformError]
       (\<lambda>e. bind (error e) (\<lambda>_. raise BuildFailed))"

subsection \<open>The clean command\<close>



subsection \<open>\<^verbatim>\<open>run_setup\<close> and the entry point\<close>

datatype command_class = Ve_build_ext | Sclean

text \<open>What \<^verbatim>\<open>run_setup\<close> passes to \<^verbatim>\<open>setup\<close>.\<close>

record setup_args =
  ext_modules :: "extension list"
  cmdclass :: "(string \<times> command_class) list"

definition run_setup :: "host \<Rightarrow> filesystem \<Rightarrow> bool \<Rightarrow> setup_args res" where
  "run_setup h fs with_extensions =
     (if with_extensions then
        bind (blosc_extension h) (\<lambda>e1.
        bind (zstd_extension h fs) (\<lambda>e2.
        bind (lz4_extension h fs) (\<lambda>e3.
        bind (compat_extension h) (\<lambda>e4.
        bind (shuffle_extension h) (\<lambda>e5.
        bind (vlen_extension h) (\<lambda>e6.
        bind (fletcher_extension h) (\<lambda>e7.
        bind (jenkins_extension h) (\<lambda>e8.
        ret \<lparr>ext_modules = e1 @ e2 @ e3 @ e4 @ e5 @ e6 @ e7 @ e8,
             cmdclass = [(''build_ext'', Ve_build_ext), (''clean'', Sclean)]\<rparr>))))))))
      else ret \<lparr>ext_modules = [], cmdclass = []\<rparr>)"

definition with_extensions :: "host \<Rightarrow> bool" where
  "with_extensions h =
     (\<not> pypy_translation_info h \<and> environ h ''DISABLE_NUMCODECS_CEXT'' = None)"

definition main :: "host \<Rightarrow> filesystem \<Rightarrow> setup_args res" where
  "main h fs = run_setup h fs (with_extensions h)"

subsection \<open>Observations on an event list\<close>

text \<open>The file lists handed to \<^verbatim>\<open>compiler.compile\<close>, and the extensions built, in order.\<close>

fun compiled :: "event list \<Rightarrow> string list list" where
  "compiled [] = []"
| "compiled (Compile files # t) = files # compiled t"
| "compiled (ev # t) = compiled t"

fun built :: "event list \<Rightarrow> string list" where
  "built [] = []"
| "built (Build n # t) = n # built t"
| "built (ev # t) = built t"

subsection \<open>Example hosts\<close>

text \<open>
  A Linux machine with both instruction sets, a working toolchain and \<^verbatim>\<open>pkg-config\<close>,
  and a checkout with one bundled zstd tree.
\<close>

definition linux_host :: host where
  "linux_host =
     \<lparr>cpu_info_flags = Some [''fpu'', ''sse2'', ''avx2''],
      environ = Map.empty,
      os_name = ''posix'', sys_platform = ''linux'', machine = ''x86_64'',
      pypy_translation_info = False,
      check_output =
        (\<lambda>argv. Inr (if argv = [''pkg-config'', ''--cflags'', ''blosc'']
                       then ''-I/usr/include'' else ''-lblosc'')),
      shlex_split = (\<lambda>s. Inr [s]),
      numpy_get_include = Inr ''numpy/include'',
      new_compiler = None,
      compile = (\<lambda>files. None),
      compile_link = (\<lambda>ext. None)\<rparr>"

definition checkout :: filesystem where
  "checkout =
     [(''c-blosc/internal-complibs/zstd-1.5.6'', Dir),
      (''c-blosc/internal-complibs/zstd-1.5.6/decompress'', Dir),
      (''c-blosc/internal-complibs/zstd-1.5.6/decompress/huf.c'', File),
      (''c-blosc/internal-complibs/zstd-1.5.6/decompress/huf_amd64.S'', File),
      (''c-blosc/internal-complibs/zstd-1.5.6/decompress/huf_amd64.o'', File),
      (''numcodecs/zstd.pyx'', File)]"

text \<open>Two small descriptors, for the build loop.\<close>

definition ext_a :: extension where
  "ext_a = Extension ''a'' [''a.pyx'']"




definition no_compiler_host :: host where
  "no_compiler_host =
     linux_host\<lparr>compile := (\<lambda>files. Some CompileError),
                 compile_link := (\<lambda>ext. Some CompileError)\<rparr>"


definition modules_of :: "setup_args res \<Rightarrow> extension list" where
  "modules_of r = (case fst r of Inl e \<Rightarrow> [] | Inr args \<Rightarrow> ext_modules args)"



section \<open>Properties\<close>

subsection \<open>Sequencing lemmas\<close>

lemma bind_Inl [simp]: "bind (Inl e, t) f = (Inl e, t)"
  by (simp add: bind_def)

lemma bind_Inr [simp]: "bind (Inr x, t) f = (fst (f x), t @ snd (f x))"
  by (simp add: bind_def split: prod.splits)

lemma bind_ret [simp]: "bind (ret x) f = f x"
  by (simp add: ret_def)

lemma bind_raise [simp]: "bind (raise e) f = raise e"
  by (simp add: raise_def)

lemma bind_emit [simp]: "bind (emit ev) f = (fst (f ()), ev # snd (f ()))"
  by (simp add: emit_def)

lemma fst_ret [simp]: "fst (ret x) = Inr x"
  by (simp add: ret_def)

lemma snd_ret [simp]: "snd (ret x) = []"
  by (simp add: ret_def)

lemma fst_raise [simp]: "fst (raise e) = Inl e"
  by (simp add: raise_def)

lemma snd_raise [simp]: "snd (raise e) = []"
  by (simp add: raise_def)

lemma try_except_Inr [simp]: "try_except (Inr x, t) cl hdl = (Inr x, t)"
  by (simp add: try_except_def)

lemma try_except_Inl [simp]:
  "try_except (Inl e, t) cl hdl = (if handles cl e then (fst (hdl e), t @ snd (hdl e)) else (Inl e, t))"
  by (simp add: try_except_def split: prod.splits)

lemma build_extension_cases:
  "ve_build_ext_build_extension h ext =
     (case compile_link h ext of
        None \<Rightarrow> (Inr (), [Build (name ext)])
      | Some e \<Rightarrow>
          (if handles (ext_errors h) e
           then (Inl BuildFailed, [Build (name ext), Log_error e])
           else (Inl e, [Build (name ext)])))"
  by (simp add: ve_build_ext_build_extension_def build_ext_build_extension_def error_def ret_def raise_def
      split: option.splits)

lemmas flag_defs = base_compile_args_def have_cflags_def disable_sse2_def disable_avx2_def
  have_sse2_def have_avx2_def flags_def

lemmas builder_defs = blosc_extension_def zstd_extension_def lz4_extension_def
  compat_extension_def shuffle_extension_def vlen_extension_def fletcher_extension_def
  jenkins_extension_def pkgconfig_def subprocess_check_output_def shlex_split_res_def info_def

subsection \<open>The build loop and \<^verbatim>\<open>ve_build_ext.run\<close>\<close>






lemma compiled_append [simp]: "compiled (s @ t) = compiled s @ compiled t"
  by (induction s rule: compiled.induct) simp_all

lemma built_append [simp]: "built (s @ t) = built s @ built t"
  by (induction s rule: built.induct) simp_all

lemma built_map_Build [simp]: "built (map (\<lambda>x. Build (name x)) xs) = map name xs"
  by (induction xs) simp_all

lemma compiled_build_extensions [simp]: "compiled (snd (build_extensions h exts)) = []"
  by (induction exts) (simp_all add: build_extension_cases split: option.splits)

text \<open>The try statement of \<^verbatim>\<open>ve_build_ext.run\<close>, by what the precompilation does.\<close>

lemma run_no_precompile:
  "machine h \<noteq> ''x86_64'' \<Longrightarrow>
     ve_build_ext_run h fs exts =
       try_except (build_ext_run h exts) [PlatformError]
         (\<lambda>e. bind (error e) (\<lambda>_. raise BuildFailed))"
  by (simp add: ve_build_ext_run_def)

lemma run_precompile_ok:
  "machine h = ''x86_64'' \<Longrightarrow> new_compiler h = None \<Longrightarrow>
   compile h (glob fs ''c-blosc/internal-complibs/zstd*/decompress/*amd64.S'') = None \<Longrightarrow>
     ve_build_ext_run h fs exts =
       try_except
         (fst (build_ext_run h exts),
          [New_compiler, Compile (glob fs ''c-blosc/internal-complibs/zstd*/decompress/*amd64.S'')]
          @ snd (build_ext_run h exts))
         [PlatformError]
         (\<lambda>e. bind (error e) (\<lambda>_. raise BuildFailed))"
  by (simp add: ve_build_ext_run_def compile_S_files_def)

lemma run_precompile_raises:
  "machine h = ''x86_64'' \<Longrightarrow>
     ve_build_ext_run h fs exts =
       (case new_compiler h of
          Some e \<Rightarrow> (if issubclass e PlatformError
                     then (Inl BuildFailed, [New_compiler, Log_error e])
                     else (Inl e, [New_compiler]))
        | None \<Rightarrow>
           (case compile h (glob fs ''c-blosc/internal-complibs/zstd*/decompress/*amd64.S'') of
              Some e \<Rightarrow>
                (if issubclass e PlatformError
                 then (Inl BuildFailed,
                       [New_compiler,
                        Compile (glob fs ''c-blosc/internal-complibs/zstd*/decompress/*amd64.S''),
                        Log_error e])
                 else (Inl e,
                       [New_compiler,
                        Compile (glob fs ''c-blosc/internal-complibs/zstd*/decompress/*amd64.S'')]))
            | None \<Rightarrow>
                try_except
                  (fst (build_ext_run h exts),
                   [New_compiler,
                    Compile (glob fs ''c-blosc/internal-complibs/zstd*/decompress/*amd64.S'')]
                   @ snd (build_ext_run h exts))
                  [PlatformError]
                  (\<lambda>e. bind (error e) (\<lambda>_. raise BuildFailed))))"
  by (simp add: ve_build_ext_run_def compile_S_files_def handles_def error_def raise_def split: option.splits)

lemma compiled_try_except [simp]:
  "compiled (snd (try_except m cl (\<lambda>e. bind (error e) (\<lambda>_. raise BuildFailed)))) = compiled (snd m)"
  by (cases m, cases "fst m") (auto simp add: error_def)

lemma built_try_except [simp]:
  "built (snd (try_except m cl (\<lambda>e. bind (error e) (\<lambda>_. raise BuildFailed)))) = built (snd m)"
  by (cases m, cases "fst m") (auto simp add: error_def)

lemma try_except_prefix:
  "\<exists>t. snd (try_except (r, s) cl (\<lambda>e. bind (error e) (\<lambda>_. raise BuildFailed))) = s @ t \<and> compiled t = []"
  by (cases r) (simp_all add: error_def)

lemma not_handles_BuildFailed [simp]: "\<not> handles [PlatformError] BuildFailed"
  by (simp add: handles_def)

lemma handles_PlatformError [simp]: "handles (ext_errors h) PlatformError"
  by (simp add: handles_def ext_errors_def)

lemma Build_ext_run_notin_precompile_raises:
  assumes "machine h = ''x86_64''"
    and "new_compiler h \<noteq> None \<or>
         compile h (glob fs ''c-blosc/internal-complibs/zstd*/decompress/*amd64.S'') \<noteq> None"
  shows "Build_ext_run \<notin> set (snd (ve_build_ext_run h fs exts))"
  using assms by (auto simp add: run_precompile_raises split: option.splits)

lemma run_trace_precompile_ok:
  assumes "machine h = ''x86_64''" "new_compiler h = None"
    and "compile h (glob fs ''c-blosc/internal-complibs/zstd*/decompress/*amd64.S'') = None"
  shows "\<exists>t. snd (ve_build_ext_run h fs exts) =
           New_compiler # Compile (glob fs ''c-blosc/internal-complibs/zstd*/decompress/*amd64.S'')
             # Build_ext_run # t \<and> compiled t = []"
proof -
  obtain r s where b: "build_extensions h exts = (r, s)" by (cases "build_extensions h exts")
  have cs: "compiled s = []" using compiled_build_extensions [of h exts] b by simp
  obtain t where t: "snd (try_except
         (r, [New_compiler, Compile (glob fs ''c-blosc/internal-complibs/zstd*/decompress/*amd64.S''),
              Build_ext_run] @ s)
         [PlatformError] (\<lambda>e. bind (error e) (\<lambda>_. raise BuildFailed))) =
       ([New_compiler, Compile (glob fs ''c-blosc/internal-complibs/zstd*/decompress/*amd64.S''),
              Build_ext_run] @ s) @ t" and ct: "compiled t = []"
    using try_except_prefix by blast
  have "snd (ve_build_ext_run h fs exts) =
          New_compiler # Compile (glob fs ''c-blosc/internal-complibs/zstd*/decompress/*amd64.S'')
            # Build_ext_run # (s @ t)"
    using assms t by (simp add: run_precompile_ok build_ext_run_def b)
  then show ?thesis using cs ct by simp
qed

lemma compiled_run_other_arch:
  "machine h \<noteq> ''x86_64'' \<Longrightarrow> compiled (snd (ve_build_ext_run h fs exts)) = []"
  by (simp add: run_no_precompile build_ext_run_def)

lemma compiled_run_x86_64:
  assumes "machine h = ''x86_64''"
  shows "compiled (snd (ve_build_ext_run h fs exts)) =
           (if new_compiler h = None
            then [glob fs ''c-blosc/internal-complibs/zstd*/decompress/*amd64.S''] else [])"
  using assms by (auto simp add: run_precompile_raises build_ext_run_def split: option.splits)

subsection \<open>What \<^verbatim>\<open>glob\<close> returns\<close>


lemma components_not_Nil [simp]: "components s \<noteq> []"
  by (induction s) (auto split: list.splits)





subsection \<open>Removing files\<close>





lemma glob_after_removal [simp]:
  "glob (filter (\<lambda>entry. \<not> glob_match (fst entry) pat) fs) pat = []"
  by (simp add: glob_def)


subsection \<open>The jenkins descriptor\<close>

lemma jenkins_fixed:
  "\<exists>ext. jenkins_extension h = (Inr [ext], [Log_info ''setting up jenkins extension'']) \<and>
     name ext = ''numcodecs.jenkins'' \<and> define_macros ext = [(''CYTHON_TRACE'', ''1'')]"
  by (simp add: jenkins_extension_def info_def ret_def Extension_def)

subsection \<open>Common compile arguments\<close>

text \<open>
  Claim C2. Whatever the CPU reports and whatever else the environment holds: when
  \<^verbatim>\<open>DISABLE_NUMCODECS_SSE2\<close> is set, \<^verbatim>\<open>-msse2\<close> is not among the base compile arguments,
  and when \<^verbatim>\<open>DISABLE_NUMCODECS_AVX2\<close> is set, \<^verbatim>\<open>-mavx2\<close> is not.
\<close>

theorem disable_override_excludes_flag:
  "(environ h ''DISABLE_NUMCODECS_SSE2'' \<noteq> None \<longrightarrow> ''-msse2'' \<notin> set (base_compile_args h)) \<and>
   (environ h ''DISABLE_NUMCODECS_AVX2'' \<noteq> None \<longrightarrow> ''-mavx2'' \<notin> set (base_compile_args h))"
  by (simp add: flag_defs)

text \<open>
  On the Linux host, which reports both instruction sets, with SSE2 disabled: the SSE2
  flag is left out and the AVX2 flag is kept.
\<close>

theorem disable_override_excludes_flag_witness:
  "environ (linux_host\<lparr>environ := [''DISABLE_NUMCODECS_SSE2'' \<mapsto> ''1'']\<rparr>)
     ''DISABLE_NUMCODECS_SSE2'' \<noteq> None \<and>
   ''sse2'' \<in> set (flags (linux_host\<lparr>environ := [''DISABLE_NUMCODECS_SSE2'' \<mapsto> ''1'']\<rparr>)) \<and>
   ''-msse2'' \<notin> set (base_compile_args
                        (linux_host\<lparr>environ := [''DISABLE_NUMCODECS_SSE2'' \<mapsto> ''1'']\<rparr>)) \<and>
   ''-mavx2'' \<in> set (base_compile_args
                        (linux_host\<lparr>environ := [''DISABLE_NUMCODECS_SSE2'' \<mapsto> ''1'']\<rparr>))"
proof -
  let ?h = "linux_host\<lparr>environ := [''DISABLE_NUMCODECS_SSE2'' \<mapsto> ''1'']\<rparr>"
  have d: "environ ?h ''DISABLE_NUMCODECS_SSE2'' \<noteq> None" by simp
  have "''-msse2'' \<notin> set (base_compile_args ?h)"
    using disable_override_excludes_flag [of ?h] d by blast
  moreover have "''sse2'' \<in> set (flags ?h)"
    by (simp add: flags_def linux_host_def)
  moreover have "''-mavx2'' \<in> set (base_compile_args ?h)"
    by (simp add: flag_defs linux_host_def)
  ultimately show ?thesis using d by blast
qed

text \<open>
  Claim C3. When \<^verbatim>\<open>CFLAGS\<close> is in the environment, none of \<^verbatim>\<open>-msse2\<close>, \<^verbatim>\<open>-mavx2\<close>,
  \<^verbatim>\<open>-mno-sse2\<close>, \<^verbatim>\<open>-mno-avx2\<close> is among the base compile arguments, whatever the CPU
  reports and whichever overrides are set; the list is \<^verbatim>\<open>-stdlib=libc++\<close> alone on macOS
  and empty elsewhere.
\<close>

theorem cflags_suppress_capability_flags:
  "environ h ''CFLAGS'' \<noteq> None \<Longrightarrow>
     base_compile_args h = (if sys_platform h = ''darwin'' then [''-stdlib=libc++''] else []) \<and>
     ''-msse2'' \<notin> set (base_compile_args h) \<and> ''-mavx2'' \<notin> set (base_compile_args h) \<and>
     ''-mno-sse2'' \<notin> set (base_compile_args h) \<and> ''-mno-avx2'' \<notin> set (base_compile_args h)"
  by (simp add: flag_defs)

text \<open>A Mac with both instruction sets, AVX2 disabled and \<^verbatim>\<open>CFLAGS\<close> set.\<close>

theorem cflags_suppress_capability_flags_witness:
  "environ (linux_host\<lparr>environ := [''CFLAGS'' \<mapsto> ''-O2'', ''DISABLE_NUMCODECS_AVX2'' \<mapsto> ''1''],
                       sys_platform := ''darwin''\<rparr>) ''CFLAGS'' \<noteq> None \<and>
   base_compile_args
     (linux_host\<lparr>environ := [''CFLAGS'' \<mapsto> ''-O2'', ''DISABLE_NUMCODECS_AVX2'' \<mapsto> ''1''],
                 sys_platform := ''darwin''\<rparr>) = [''-stdlib=libc++'']"
proof -
  let ?h = "linux_host\<lparr>environ := [''CFLAGS'' \<mapsto> ''-O2'', ''DISABLE_NUMCODECS_AVX2'' \<mapsto> ''1''],
                       sys_platform := ''darwin''\<rparr>"
  have c: "environ ?h ''CFLAGS'' \<noteq> None" by simp
  have "base_compile_args ?h = [''-stdlib=libc++'']"
    using cflags_suppress_capability_flags [OF c] by simp
  then show ?thesis using c by blast
qed

subsection \<open>The bypass\<close>

text \<open>
  Claim C4. On PyPy, or with \<^verbatim>\<open>DISABLE_NUMCODECS_CEXT\<close> in the environment,
  \<^verbatim>\<open>with_extensions\<close> is false and \<^verbatim>\<open>run_setup\<close> hands \<^verbatim>\<open>setup\<close> an empty extension list
  and an empty \<^verbatim>\<open>cmdclass\<close>; it causes no event at all, so no builder function ran (each
  one logs a line first) and no subprocess was started. The build loop over the empty
  list builds nothing.
\<close>

theorem bypass_skips_everything:
  "pypy_translation_info h \<or> environ h ''DISABLE_NUMCODECS_CEXT'' \<noteq> None \<Longrightarrow>
     \<not> with_extensions h \<and>
     main h fs = (Inr \<lparr>ext_modules = [], cmdclass = []\<rparr>, []) \<and>
     build_extensions h [] = (Inr (), [])"
  by (auto simp add: with_extensions_def main_def run_setup_def ret_def)

text \<open>The Linux host with the native extensions disabled.\<close>

theorem bypass_skips_everything_witness:
  "environ (linux_host\<lparr>environ := [''DISABLE_NUMCODECS_CEXT'' \<mapsto> ''1'']\<rparr>)
     ''DISABLE_NUMCODECS_CEXT'' \<noteq> None \<and>
   main (linux_host\<lparr>environ := [''DISABLE_NUMCODECS_CEXT'' \<mapsto> ''1'']\<rparr>) checkout =
     (Inr \<lparr>ext_modules = [], cmdclass = []\<rparr>, [])"
proof -
  let ?h = "linux_host\<lparr>environ := [''DISABLE_NUMCODECS_CEXT'' \<mapsto> ''1'']\<rparr>"
  have d: "environ ?h ''DISABLE_NUMCODECS_CEXT'' \<noteq> None" by simp
  then have "pypy_translation_info ?h \<or> environ ?h ''DISABLE_NUMCODECS_CEXT'' \<noteq> None" ..
  from bypass_skips_everything [OF this, of checkout] d show ?thesis by blast
qed

subsection \<open>The package registry\<close>

text \<open>
  Claim C6. When \<^verbatim>\<open>pkg-config\<close> fails for \<^verbatim>\<open>blosc\<close> (on the \<^verbatim>\<open>--cflags\<close> query, or on the
  \<^verbatim>\<open>--libs\<close> query after it), the exception \<open>e\<close> it raises (\<^verbatim>\<open>CalledProcessError\<close> for a
  non-zero exit status, \<^verbatim>\<open>FileNotFoundError\<close> for a missing tool) leaves \<^verbatim>\<open>pkgconfig\<close>,
  \<^verbatim>\<open>blosc_extension\<close>, \<^verbatim>\<open>run_setup\<close> and the entry point unhandled. No descriptor
  is produced, and the only events are the log line of the Blosc builder and the
  subprocess calls: no later builder runs.
\<close>

theorem pkgconfig_failure_is_fatal:
  assumes "check_output h [''pkg-config'', ''--cflags'', ''blosc''] = Inl e \<or>
           (\<exists>out. check_output h [''pkg-config'', ''--cflags'', ''blosc''] = Inr out) \<and>
           check_output h [''pkg-config'', ''--libs'', ''blosc''] = Inl e"
  shows "fst (pkgconfig h ''blosc'') = Inl e \<and>
         fst (blosc_extension h) = Inl e \<and>
         fst (run_setup h fs True) = Inl e \<and>
         (with_extensions h \<longrightarrow> fst (main h fs) = Inl e) \<and>
         snd (run_setup h fs True) =
           Log_info ''setting up Blosc extension'' # snd (pkgconfig h ''blosc'') \<and>
         snd (pkgconfig h ''blosc'') =
           (if check_output h [''pkg-config'', ''--cflags'', ''blosc''] = Inl e
            then [Exec [''pkg-config'', ''--cflags'', ''blosc'']]
            else [Exec [''pkg-config'', ''--cflags'', ''blosc''],
                  Exec [''pkg-config'', ''--libs'', ''blosc'']])"
proof -
  have p: "pkgconfig h ''blosc'' =
      (Inl e, if check_output h [''pkg-config'', ''--cflags'', ''blosc''] = Inl e
            then [Exec [''pkg-config'', ''--cflags'', ''blosc'']]
            else [Exec [''pkg-config'', ''--cflags'', ''blosc''],
                  Exec [''pkg-config'', ''--libs'', ''blosc'']])"
    using assms by (auto simp add: pkgconfig_def subprocess_check_output_def raise_def ret_def)
  have b: "blosc_extension h = (Inl e, Log_info ''setting up Blosc extension'' # snd (pkgconfig h ''blosc''))"
    by (simp add: blosc_extension_def info_def p)
  have r: "run_setup h fs True = (Inl e, snd (blosc_extension h))"
    by (simp add: run_setup_def b)
  show ?thesis by (simp add: main_def r b p)
qed

text \<open>The Linux host where every \<^verbatim>\<open>pkg-config\<close> call exits with a non-zero status.\<close>

theorem pkgconfig_failure_is_fatal_witness:
  "check_output (linux_host\<lparr>check_output := (\<lambda>argv. Inl CalledProcessError)\<rparr>)
     [''pkg-config'', ''--cflags'', ''blosc''] = Inl CalledProcessError \<and>
   main (linux_host\<lparr>check_output := (\<lambda>argv. Inl CalledProcessError)\<rparr>) checkout =
     (Inl CalledProcessError,
      [Log_info ''setting up Blosc extension'', Exec [''pkg-config'', ''--cflags'', ''blosc'']])"
proof -
  let ?h = "linux_host\<lparr>check_output := (\<lambda>argv. Inl CalledProcessError)\<rparr>"
  have c: "check_output ?h [''pkg-config'', ''--cflags'', ''blosc''] = Inl CalledProcessError"
    by simp
  have w: "with_extensions ?h" by (simp add: with_extensions_def linux_host_def)
  have "fst (main ?h checkout) = Inl CalledProcessError \<and>
        snd (main ?h checkout) =
          [Log_info ''setting up Blosc extension'', Exec [''pkg-config'', ''--cflags'', ''blosc'']]"
    using pkgconfig_failure_is_fatal [of ?h CalledProcessError checkout] c w
    by (simp add: main_def)
  then show ?thesis using c by (simp add: prod_eq_iff)
qed

subsection \<open>The errors a component build converts\<close>




subsection \<open>A component whose build fails\<close>




subsection \<open>The precompilation of the assembly files\<close>

text \<open>
  The order of the steps of \<^verbatim>\<open>ve_build_ext.run\<close>. On \<^verbatim>\<open>x86_64\<close>: a \<^verbatim>\<open>PlatformError\<close> of
  the precompilation (from setting up the compiler or from compiling) makes it raise
  \<^verbatim>\<open>BuildFailed\<close>, as \<^verbatim>\<open>ve_build_ext.build_extension\<close> does for a \<^verbatim>\<open>PlatformError\<close> of a
  component; when the precompilation raises, the wrapped build step does not begin; the
  assembly files are handed to the compiler once (not at all when the compiler cannot
  be set up), and when the precompilation completes, that is before the wrapped build
  step begins, which compiles no assembly files again. On any other architecture the
  precompilation does not run.
\<close>

lemma precompile_order:
  "(machine h = ''x86_64'' \<longrightarrow>
      ((new_compiler h = Some PlatformError \<or>
        new_compiler h = None \<and>
        compile h (glob fs ''c-blosc/internal-complibs/zstd*/decompress/*amd64.S'')
          = Some PlatformError) \<longrightarrow>
         fst (ve_build_ext_run h fs exts) = Inl BuildFailed \<and>
         (compile_link h ext = Some PlatformError \<longrightarrow>
            fst (ve_build_ext_build_extension h ext) = Inl BuildFailed)) \<and>
      ((new_compiler h \<noteq> None \<or>
        compile h (glob fs ''c-blosc/internal-complibs/zstd*/decompress/*amd64.S'') \<noteq> None) \<longrightarrow>
         Build_ext_run \<notin> set (snd (ve_build_ext_run h fs exts))) \<and>
      compiled (snd (ve_build_ext_run h fs exts)) =
        (if new_compiler h = None
         then [glob fs ''c-blosc/internal-complibs/zstd*/decompress/*amd64.S''] else []) \<and>
      (new_compiler h = None \<and>
       compile h (glob fs ''c-blosc/internal-complibs/zstd*/decompress/*amd64.S'') = None \<longrightarrow>
         (\<exists>t. snd (ve_build_ext_run h fs exts) =
            New_compiler
            # Compile (glob fs ''c-blosc/internal-complibs/zstd*/decompress/*amd64.S'')
            # Build_ext_run # t \<and> compiled t = []))) \<and>
   (machine h \<noteq> ''x86_64'' \<longrightarrow> compiled (snd (ve_build_ext_run h fs exts)) = [])"
proof -
  have a: "fst (ve_build_ext_run h fs exts) = Inl BuildFailed"
    if "machine h = ''x86_64''" and "new_compiler h = Some PlatformError \<or>
        new_compiler h = None \<and>
        compile h (glob fs ''c-blosc/internal-complibs/zstd*/decompress/*amd64.S'')
          = Some PlatformError"
    using that by (auto simp add: run_precompile_raises)
  have b: "compile_link h ext = Some PlatformError \<longrightarrow>
            fst (ve_build_ext_build_extension h ext) = Inl BuildFailed"
    by (simp add: build_extension_cases)
  show ?thesis
    using a b Build_ext_run_notin_precompile_raises [of h fs exts]
      compiled_run_x86_64 [of h fs exts] run_trace_precompile_ok [of h fs exts]
      compiled_run_other_arch [of h fs exts]
    by blast
qed

text \<open>
  A host that cannot set up a compiler, the Linux host with its working toolchain, and
  an ARM host.
\<close>

lemma precompile_order_example:
  "fst (ve_build_ext_run (linux_host\<lparr>new_compiler := Some PlatformError\<rparr>) checkout [ext_a]) = Inl BuildFailed \<and>
   Build_ext_run \<notin> set (snd (ve_build_ext_run (linux_host\<lparr>new_compiler := Some PlatformError\<rparr>) checkout [ext_a])) \<and>
   compiled (snd (ve_build_ext_run linux_host checkout [ext_a])) =
     [[''c-blosc/internal-complibs/zstd-1.5.6/decompress/huf_amd64.S'']] \<and>
   compiled (snd (ve_build_ext_run (linux_host\<lparr>machine := ''aarch64''\<rparr>) checkout [ext_a])) = []"
proof -
  let ?p = "linux_host\<lparr>new_compiler := Some PlatformError\<rparr>"
  let ?a = "linux_host\<lparr>machine := ''aarch64''\<rparr>"
  have g: "glob checkout ''c-blosc/internal-complibs/zstd*/decompress/*amd64.S'' =
        [''c-blosc/internal-complibs/zstd-1.5.6/decompress/huf_amd64.S'']"
    by code_simp
  have mp: "machine ?p = ''x86_64''" and np: "new_compiler ?p = Some PlatformError"
    and ml: "machine linux_host = ''x86_64''" and nl: "new_compiler linux_host = None"
    and ma: "machine ?a \<noteq> ''x86_64''"
    by (simp_all add: linux_host_def)
  have 1: "fst (ve_build_ext_run ?p checkout [ext_a]) = Inl BuildFailed \<and>
           Build_ext_run \<notin> set (snd (ve_build_ext_run ?p checkout [ext_a]))"
    using precompile_order [of ?p checkout "[ext_a]" ext_a] mp np by simp
  have 2: "compiled (snd (ve_build_ext_run linux_host checkout [ext_a])) =
     [[''c-blosc/internal-complibs/zstd-1.5.6/decompress/huf_amd64.S'']]"
    using precompile_order [of linux_host checkout "[ext_a]" ext_a] ml nl g by simp
  have 3: "compiled (snd (ve_build_ext_run ?a checkout [ext_a])) = []"
    using precompile_order [of ?a checkout "[ext_a]" ext_a] ma by blast
  from 1 2 3 show ?thesis by blast
qed

text \<open>
  Claim C7. The claim is that any toolchain or platform failure of the precompilation
  becomes \<^verbatim>\<open>BuildFailed\<close>, the exception of a failed component build. The script puts
  the precompilation inside the \<^verbatim>\<open>try\<close> statement of \<^verbatim>\<open>ve_build_ext.run\<close>, but the
  \<^verbatim>\<open>except\<close> clause names \<^verbatim>\<open>PlatformError\<close> only, and \<^verbatim>\<open>compiler.compile\<close> reports a
  failed compilation with \<^verbatim>\<open>CompileError\<close>. On the \<^verbatim>\<open>x86_64\<close> host whose compiler rejects
  the assembly file: \<^verbatim>\<open>CompileError\<close> is one of the errors of \<^verbatim>\<open>ext_errors\<close>, and
  \<^verbatim>\<open>ve_build_ext.build_extension\<close> converts it into \<^verbatim>\<open>BuildFailed\<close>; \<^verbatim>\<open>ve_build_ext.run\<close>
  does not, and raises the \<^verbatim>\<open>CompileError\<close> itself, without logging it.
\<close>

theorem precompile_compile_error_not_converted:
  "machine no_compiler_host = ''x86_64'' \<and>
   handles (ext_errors no_compiler_host) CompileError \<and>
   fst (ve_build_ext_build_extension no_compiler_host ext_a) = Inl BuildFailed \<and>
   ve_build_ext_run no_compiler_host checkout [ext_a] =
     (Inl CompileError,
      [New_compiler,
       Compile [''c-blosc/internal-complibs/zstd-1.5.6/decompress/huf_amd64.S'']])"
proof -
  have g: "glob checkout ''c-blosc/internal-complibs/zstd*/decompress/*amd64.S'' =
        [''c-blosc/internal-complibs/zstd-1.5.6/decompress/huf_amd64.S'']"
    by code_simp
  show ?thesis
    by (simp add: g run_precompile_raises no_compiler_host_def linux_host_def
        build_extension_cases handles_def ext_errors_def)
qed

subsection \<open>The object files of the zstd component\<close>



subsection \<open>The tracing macro\<close>

text \<open>
  Claim C9. In the extension list that \<^verbatim>\<open>run_setup\<close> assembles, the descriptors that
  define \<^verbatim>\<open>('CYTHON_TRACE', '1')\<close> are exactly one, \<^verbatim>\<open>numcodecs.jenkins\<close>, and every other
  descriptor has no macro definitions at all. \<^verbatim>\<open>jenkins_extension\<close> attaches the macro
  on every host: it reads neither the CPU flags nor the environment nor the
  architecture for it.
\<close>

theorem cython_trace_on_jenkins_only:
  "(run_setup h fs True = (Inr a, t) \<longrightarrow>
      map name (filter (\<lambda>x. (''CYTHON_TRACE'', ''1'') \<in> set (define_macros x)) (ext_modules a))
        = [''numcodecs.jenkins''] \<and>
      (\<forall>x\<in>set (ext_modules a). name x \<noteq> ''numcodecs.jenkins'' \<longrightarrow> define_macros x = [])) \<and>
   (\<exists>ext. jenkins_extension h = (Inr [ext], [Log_info ''setting up jenkins extension'']) \<and>
      name ext = ''numcodecs.jenkins'' \<and> define_macros ext = [(''CYTHON_TRACE'', ''1'')])"
proof -
  have "map name (filter (\<lambda>x. (''CYTHON_TRACE'', ''1'') \<in> set (define_macros x)) (ext_modules a))
        = [''numcodecs.jenkins''] \<and>
      (\<forall>x\<in>set (ext_modules a). name x \<noteq> ''numcodecs.jenkins'' \<longrightarrow> define_macros x = [])"
    if "run_setup h fs True = (Inr a, t)"
    using that
    by (auto simp add: run_setup_def builder_defs Extension_def Let_def ret_def raise_def
      split: sum.splits)
  then show ?thesis using jenkins_fixed [of h] by blast
qed

text \<open>The eight descriptors assembled on the Linux host.\<close>

theorem cython_trace_on_jenkins_only_witness:
  "length (modules_of (run_setup linux_host checkout True)) = 8 \<and>
   map name (filter (\<lambda>x. (''CYTHON_TRACE'', ''1'') \<in> set (define_macros x))
               (modules_of (run_setup linux_host checkout True)))
     = [''numcodecs.jenkins'']"
proof -
  obtain r t where rt: "run_setup linux_host checkout True = (r, t)"
    by (cases "run_setup linux_host checkout True")
  have "length (modules_of (run_setup linux_host checkout True)) = 8"
    by (simp add: modules_of_def run_setup_def builder_defs linux_host_def Let_def)
  then have l: "length (modules_of (r, t)) = 8" by (simp add: rt)
  then obtain a where a: "r = Inr a" by (cases r) (simp_all add: modules_of_def)
  from cython_trace_on_jenkins_only [of linux_host checkout a t] rt a
  have "map name (filter (\<lambda>x. (''CYTHON_TRACE'', ''1'') \<in> set (define_macros x)) (ext_modules a))
        = [''numcodecs.jenkins'']" by simp
  then show ?thesis using l by (simp add: rt a modules_of_def)
qed

subsection \<open>Cleaning twice\<close>




end
